theory Spec2Isabelle
  imports Main "HOL-Library.Word"
begin

unbundle bit_operations_syntax

section \<open>Package constants (omreport.go)\<close>

type_synonym byte = "8 word"

definition DefaultOMCLIProxyDir :: string where
  "DefaultOMCLIProxyDir = ''/opt/dell/srvadmin/sbin''"

definition DefaultOMCLIProxyBinaryName :: string where
  "DefaultOMCLIProxyBinaryName = ''omcliproxy''"

definition DefaultOMReportCommandName :: string where
  "DefaultOMReportCommandName = ''omreport''"

section \<open>Library functions the package calls\<close>

subsection \<open>path/filepath\<close>

text \<open>
  \<open>filepath.Base\<close> on a Unix system: the empty path gives \<open>.\<close>; trailing slashes
  are stripped; the result is what follows the last remaining slash; a path made of
  slashes only gives \<open>/\<close>.
\<close>

definition strip_trailing_slashes :: "string \<Rightarrow> string" where
  "strip_trailing_slashes p = rev (dropWhile (\<lambda>c. c = CHR ''/'') (rev p))"

definition last_element :: "string \<Rightarrow> string" where
  "last_element p = rev (takeWhile (\<lambda>c. c \<noteq> CHR ''/'') (rev p))"

definition filepath_Base :: "string \<Rightarrow> string" where
  "filepath_Base path =
     (if path = [] then ''.''
      else if last_element (strip_trailing_slashes path) = [] then ''/''
      else last_element (strip_trailing_slashes path))"

text \<open>
  \<open>filepath.Join\<close> of two elements joins them with a slash and cleans the result.
  The package calls it on its two constants only, whose joined path is already clean.
\<close>

definition filepath_Join :: "string \<Rightarrow> string \<Rightarrow> string" where
  "filepath_Join dir name = dir @ ''/'' @ name"

subsection \<open>crypto/sha256 (FIPS 180-4)\<close>

definition rotr :: "nat \<Rightarrow> 32 word \<Rightarrow> 32 word" where
  "rotr n x = drop_bit n x OR push_bit (32 - n) x"

definition Ch :: "32 word \<Rightarrow> 32 word \<Rightarrow> 32 word \<Rightarrow> 32 word" where
  "Ch x y z = (x AND y) XOR (NOT x AND z)"

definition Maj :: "32 word \<Rightarrow> 32 word \<Rightarrow> 32 word \<Rightarrow> 32 word" where
  "Maj x y z = (x AND y) XOR (x AND z) XOR (y AND z)"

definition bsig0 :: "32 word \<Rightarrow> 32 word" where
  "bsig0 x = rotr 2 x XOR rotr 13 x XOR rotr 22 x"

definition bsig1 :: "32 word \<Rightarrow> 32 word" where
  "bsig1 x = rotr 6 x XOR rotr 11 x XOR rotr 25 x"

definition ssig0 :: "32 word \<Rightarrow> 32 word" where
  "ssig0 x = rotr 7 x XOR rotr 18 x XOR drop_bit 3 x"

definition ssig1 :: "32 word \<Rightarrow> 32 word" where
  "ssig1 x = rotr 17 x XOR rotr 19 x XOR drop_bit 10 x"

definition sha256_K :: "32 word list" where
  "sha256_K =
    [0x428A2F98, 0x71374491, 0xB5C0FBCF, 0xE9B5DBA5,
     0x3956C25B, 0x59F111F1, 0x923F82A4, 0xAB1C5ED5,
     0xD807AA98, 0x12835B01, 0x243185BE, 0x550C7DC3,
     0x72BE5D74, 0x80DEB1FE, 0x9BDC06A7, 0xC19BF174,
     0xE49B69C1, 0xEFBE4786, 0x0FC19DC6, 0x240CA1CC,
     0x2DE92C6F, 0x4A7484AA, 0x5CB0A9DC, 0x76F988DA,
     0x983E5152, 0xA831C66D, 0xB00327C8, 0xBF597FC7,
     0xC6E00BF3, 0xD5A79147, 0x06CA6351, 0x14292967,
     0x27B70A85, 0x2E1B2138, 0x4D2C6DFC, 0x53380D13,
     0x650A7354, 0x766A0ABB, 0x81C2C92E, 0x92722C85,
     0xA2BFE8A1, 0xA81A664B, 0xC24B8B70, 0xC76C51A3,
     0xD192E819, 0xD6990624, 0xF40E3585, 0x106AA070,
     0x19A4C116, 0x1E376C08, 0x2748774C, 0x34B0BCB5,
     0x391C0CB3, 0x4ED8AA4A, 0x5B9CCA4F, 0x682E6FF3,
     0x748F82EE, 0x78A5636F, 0x84C87814, 0x8CC70208,
     0x90BEFFFA, 0xA4506CEB, 0xBEF9A3F7, 0xC67178F2]"

definition sha256_init :: "32 word list" where
  "sha256_init =
    [0x6a09e667, 0xbb67ae85, 0x3c6ef372, 0xa54ff53a,
     0x510e527f, 0x9b05688c, 0x1f83d9ab, 0x5be0cd19]"

text \<open>
  Padding: the byte \<open>0x80\<close>, zero bytes up to 56 modulo 64, and the length of the
  message in bits as a 64-bit big-endian number.
\<close>

definition pad :: "byte list \<Rightarrow> byte list" where
  "pad m = m @ [0x80] @ replicate ((119 - length m mod 64) mod 64) 0
             @ map (\<lambda>i. ucast (drop_bit (8 * i) (word_of_nat (8 * length m) :: 64 word)))
                   [7, 6, 5, 4, 3, 2, 1, 0]"

fun be_words :: "byte list \<Rightarrow> 32 word list" where
  "be_words (a # b # c # d # rest) =
     (push_bit 24 (ucast a) OR push_bit 16 (ucast b) OR push_bit 8 (ucast c) OR ucast d)
       # be_words rest"
| "be_words _ = []"

text \<open>
  The message schedule, as a window of the last sixteen words: each step emits the
  oldest word and appends \<open>W\<^sub>t = ssig1 W\<^sub>t\<^sub>-\<^sub>2 + W\<^sub>t\<^sub>-\<^sub>7 + ssig0 W\<^sub>t\<^sub>-\<^sub>1\<^sub>5 + W\<^sub>t\<^sub>-\<^sub>1\<^sub>6\<close>.
\<close>

fun schedule :: "nat \<Rightarrow> 32 word list \<Rightarrow> 32 word list" where
  "schedule 0 w = []"
| "schedule (Suc n) w =
     hd w # schedule n (tl w @ [ssig1 (w ! 14) + w ! 9 + ssig0 (w ! 1) + w ! 0])"

fun round :: "32 word list \<Rightarrow> 32 word \<times> 32 word \<Rightarrow> 32 word list" where
  "round [a, b, c, d, e, f, g, h] (k, w) =
     (let t1 = h + bsig1 e + Ch e f g + k + w;
          t2 = bsig0 a + Maj a b c
      in [t1 + t2, a, b, c, d + t1, e, f, g])"
| "round s _ = s"

definition block :: "32 word list \<Rightarrow> 32 word list \<Rightarrow> 32 word list" where
  "block h w = map2 (+) h (foldl round h (zip sha256_K (schedule 64 w)))"

fun blocks :: "nat \<Rightarrow> 32 word list \<Rightarrow> 32 word list \<Rightarrow> 32 word list" where
  "blocks 0 h ws = h"
| "blocks (Suc n) h ws = blocks n (block h (take 16 ws)) (drop 16 ws)"

definition be_bytes :: "32 word \<Rightarrow> byte list" where
  "be_bytes x = [ucast (drop_bit 24 x), ucast (drop_bit 16 x), ucast (drop_bit 8 x), ucast x]"

definition sha256 :: "byte list \<Rightarrow> byte list" where
  "sha256 m = (let p = pad m in
     concat (map be_bytes (blocks (length p div 64) sha256_init (be_words p))))"

text \<open>
  A \<open>hash.Hash\<close> made by \<open>sha256.New()\<close> is modelled by the bytes written to it so
  far: \<open>Write\<close> appends, \<open>Sum(b)\<close> appends the digest of what was written to \<open>b\<close>.
\<close>

type_synonym hash = "byte list"

definition sha256_New :: hash where
  "sha256_New = []"

definition hash_Write :: "hash \<Rightarrow> byte list \<Rightarrow> hash" where
  "hash_Write h p = h @ p"

definition hash_Sum :: "hash \<Rightarrow> byte list \<Rightarrow> byte list" where
  "hash_Sum h b = b @ sha256 h"

subsection \<open>os: errors, file modes, the process's view of the operating system\<close>

datatype errno = ENOENT | EACCES | ENOTDIR | ELOOP | EMFILE | EISDIR | EIO | EBADF

text \<open>
  The error values that reach a caller of this package: the three that the package
  makes with \<open>fmt.Errorf\<close>, an \<open>*os.PathError\<close> (operation, path, cause), an error
  of \<open>os/exec\<close> and one of \<open>encoding/xml\<close>. Go's \<open>nil\<close> error is \<open>None\<close>.
\<close>

datatype error =
    BinaryNameError
  | SymlinkError string
  | ChecksumError "byte list" "byte list"
  | PathError string string errno
  | ExecError string
  | UnmarshalError string

definition bytes_string :: "byte list \<Rightarrow> string" where
  "bytes_string bs = map (\<lambda>b. char_of (unat b)) bs"

fun errno_string :: "errno \<Rightarrow> string" where
  "errno_string ENOENT = ''no such file or directory''"
| "errno_string EACCES = ''permission denied''"
| "errno_string ENOTDIR = ''not a directory''"
| "errno_string ELOOP = ''too many levels of symbolic links''"
| "errno_string EMFILE = ''too many open files''"
| "errno_string EISDIR = ''is a directory''"
| "errno_string EIO = ''input/output error''"
| "errno_string EBADF = ''bad file descriptor''"

text \<open>The text of an error (its \<open>Error()\<close> method); \<open>%s\<close> prints a byte slice raw.\<close>

fun error_string :: "error \<Rightarrow> string" where
  "error_string BinaryNameError =
     ''expected binary name to be '' @ DefaultOMCLIProxyBinaryName"
| "error_string (SymlinkError p) = ''expected '' @ p @ '' to not be a symlink''"
| "error_string (ChecksumError cur orig) =
     ''current binary checksum '' @ bytes_string cur
       @ '' does not match the original checksum '' @ bytes_string orig
       @ '' which is very suspicious''"
| "error_string (PathError opn p e) = opn @ '' '' @ p @ '': '' @ errno_string e"
| "error_string (ExecError m) = m"
| "error_string (UnmarshalError m) = m"

text \<open>\<open>fs.FileMode\<close>: the type bits of a mode, from the most significant bit down.\<close>

type_synonym FileMode = "32 word"

definition ModeDir :: FileMode where "ModeDir = push_bit 31 1"
definition ModeSymlink :: FileMode where "ModeSymlink = push_bit 27 1"
definition ModeDevice :: FileMode where "ModeDevice = push_bit 26 1"
definition ModeNamedPipe :: FileMode where "ModeNamedPipe = push_bit 25 1"
definition ModeSocket :: FileMode where "ModeSocket = push_bit 24 1"
definition ModeCharDevice :: FileMode where "ModeCharDevice = push_bit 21 1"
definition ModeIrregular :: FileMode where "ModeIrregular = push_bit 19 1"

definition ModeType :: FileMode where
  "ModeType = ModeDir OR ModeSymlink OR ModeNamedPipe OR ModeSocket OR ModeDevice
                OR ModeCharDevice OR ModeIrregular"

definition IsRegular :: "FileMode \<Rightarrow> bool" where
  "IsRegular m = (m AND ModeType = 0)"

text \<open>
  What opening a path gives the process: the bytes that reading delivers, the error
  that ends the reading instead of end-of-file (if any), and the error that closing
  reports (if any). A directory opens and then fails every read with \<open>EISDIR\<close>.
\<close>

record stream =
  data :: "byte list"
  read_err :: "errno option"
  close_err :: "errno option"

text \<open>An open \<open>*os.File\<close>: its descriptor, the name it was opened under, its stream.\<close>

record os_File =
  fd :: nat
  fname :: string
  src :: stream

datatype event =
    EvLstat string
  | EvOpen string
  | EvRead nat
  | EvClose nat
  | EvExec string "string list"

text \<open>
  The operating system as the process sees it: what \<open>lstat\<close>, \<open>open\<close> and running
  a command answer for each path, the descriptors the process holds open, and the log
  of the system calls it has made. Other actors change the three answers between
  calls of the package; the package itself changes only the descriptors and the log.
\<close>

record world =
  lstat_of :: "string \<Rightarrow> errno + FileMode"
  open_of :: "string \<Rightarrow> errno + stream"
  exec_of :: "string \<Rightarrow> string list \<Rightarrow> byte list \<times> error option"
  open_fds :: "nat list"
  trace :: "event list"

definition emit :: "event \<Rightarrow> world \<Rightarrow> world" where
  "emit e w = w\<lparr>trace := trace w @ [e]\<rparr>"

definition new_fd :: "nat list \<Rightarrow> nat" where
  "new_fd fds = Suc (fold max fds 2)"

definition os_Lstat :: "string \<Rightarrow> world \<Rightarrow> (error + FileMode) \<times> world" where
  "os_Lstat p w =
     (case lstat_of w p of
        Inl e \<Rightarrow> (Inl (PathError ''lstat'' p e), emit (EvLstat p) w)
      | Inr m \<Rightarrow> (Inr m, emit (EvLstat p) w))"

definition os_Open :: "string \<Rightarrow> world \<Rightarrow> (error + os_File) \<times> world" where
  "os_Open p w =
     (case open_of w p of
        Inl e \<Rightarrow> (Inl (PathError ''open'' p e), emit (EvOpen p) w)
      | Inr s \<Rightarrow>
          (Inr \<lparr>fd = new_fd (open_fds w), fname = p, src = s\<rparr>,
           emit (EvOpen p) (w\<lparr>open_fds := new_fd (open_fds w) # open_fds w\<rparr>)))"

text \<open>
  \<open>io.Copy(h, f)\<close>: every byte read before the end of the stream is written to the
  hash; a read error ends the copy with that error.
\<close>

definition io_Copy :: "hash \<Rightarrow> os_File \<Rightarrow> world \<Rightarrow> (hash \<times> error option) \<times> world" where
  "io_Copy h f w =
     (case read_err (src f) of
        Some e \<Rightarrow> ((hash_Write h (data (src f)), Some (PathError ''read'' (fname f) e)),
                   emit (EvRead (fd f)) w)
      | None \<Rightarrow> ((hash_Write h (data (src f)), None), emit (EvRead (fd f)) w))"

text \<open>\<open>f.Close()\<close> gives the descriptor back also when it reports an error.\<close>

definition file_Close :: "os_File \<Rightarrow> world \<Rightarrow> error option \<times> world" where
  "file_Close f w =
     (case close_err (src f) of
        Some e \<Rightarrow> (Some (PathError ''close'' (fname f) e),
                   emit (EvClose (fd f)) (w\<lparr>open_fds := remove1 (fd f) (open_fds w)\<rparr>))
      | None \<Rightarrow> (None, emit (EvClose (fd f)) (w\<lparr>open_fds := remove1 (fd f) (open_fds w)\<rparr>)))"

section \<open>The package (omreport.go)\<close>

record Config =
  OMCLIProxyPath :: string
  EnhancedSecurityMode :: bool

record OMReport =
  omCLIProxyPath :: string
  enhancedSecurityMode :: bool
  sha256Checksum :: "byte list"

text \<open>\<open>fileSha256\<close>: open, copy into a new hash, close, sum.\<close>

definition fileSha256 :: "string \<Rightarrow> world \<Rightarrow> (error + byte list) \<times> world" where
  "fileSha256 path w =
     (case os_Open path w of
        (Inl err, w1) \<Rightarrow> (Inl err, w1)
      | (Inr f, w1) \<Rightarrow>
          (case io_Copy sha256_New f w1 of
             ((h, Some err), w2) \<Rightarrow> (Inl err, w2)
           | ((h, None), w2) \<Rightarrow>
               (case file_Close f w2 of
                  (Some err, w3) \<Rightarrow> (Inl err, w3)
                | (None, w3) \<Rightarrow> (Inr (hash_Sum h []), w3))))"

definition allowedOMCLIProxyBinary :: "OMReport \<Rightarrow> world \<Rightarrow> error option \<times> world" where
  "allowedOMCLIProxyBinary om w =
     (if filepath_Base (omCLIProxyPath om) \<noteq> DefaultOMCLIProxyBinaryName
      then (Some BinaryNameError, w)
      else
        (case os_Lstat (omCLIProxyPath om) w of
           (Inl err, w1) \<Rightarrow> (Some err, w1)
         | (Inr m, w1) \<Rightarrow>
             (if m AND ModeSymlink \<noteq> 0 then (Some (SymlinkError (omCLIProxyPath om)), w1)
              else (None, w1))))"

definition NewOMReporter :: "Config \<Rightarrow> world \<Rightarrow> (error + OMReport) \<times> world" where
  "NewOMReporter cfg w =
     (case allowedOMCLIProxyBinary
             \<lparr>omCLIProxyPath = OMCLIProxyPath cfg,
              enhancedSecurityMode = EnhancedSecurityMode cfg,
              sha256Checksum = []\<rparr> w of
        (Some err, w1) \<Rightarrow> (Inl err, w1)
      | (None, w1) \<Rightarrow>
          (case fileSha256 (OMCLIProxyPath cfg) w1 of
             (Inl err, w2) \<Rightarrow> (Inl err, w2)
           | (Inr checksum, w2) \<Rightarrow>
               (Inr \<lparr>omCLIProxyPath = OMCLIProxyPath cfg,
                     enhancedSecurityMode = EnhancedSecurityMode cfg,
                     sha256Checksum = checksum\<rparr>, w2)))"

text \<open>
  The methods have pointer receivers, so each returns the client as it leaves it.
\<close>

definition SuspiciousOMCLIProxyBinary ::
  "OMReport \<Rightarrow> world \<Rightarrow> error option \<times> OMReport \<times> world" where
  "SuspiciousOMCLIProxyBinary om w =
     (case fileSha256 (omCLIProxyPath om) w of
        (Inl err, w1) \<Rightarrow> (Some err, om, w1)
      | (Inr currentChecksum, w1) \<Rightarrow>
          (if currentChecksum \<noteq> sha256Checksum om
           then (Some (ChecksumError currentChecksum (sha256Checksum om)), om, w1)
           else (None, om, w1)))"

definition exec_CombinedOutput ::
  "string \<Rightarrow> string list \<Rightarrow> world \<Rightarrow> (byte list \<times> error option) \<times> world" where
  "exec_CombinedOutput p args w = (exec_of w p args, emit (EvExec p args) w)"

definition default_path :: "OMReport \<Rightarrow> OMReport" where
  "default_path om =
     (if omCLIProxyPath om = []
      then om\<lparr>omCLIProxyPath := filepath_Join DefaultOMCLIProxyDir DefaultOMCLIProxyBinaryName\<rparr>
      else om)"

definition run_omreport ::
  "OMReport \<Rightarrow> string list \<Rightarrow> world \<Rightarrow> (byte list \<times> error option) \<times> OMReport \<times> world" where
  "run_omreport om args w =
     (case exec_CombinedOutput (omCLIProxyPath om)
             (([DefaultOMReportCommandName] @ args) @ [''-fmt'', ''xml'']) w of
        (out, w1) \<Rightarrow> (out, om, w1))"

definition Report ::
  "OMReport \<Rightarrow> string list \<Rightarrow> world \<Rightarrow> (byte list \<times> error option) \<times> OMReport \<times> world" where
  "Report om0 args w =
     (let om = default_path om0 in
      if enhancedSecurityMode om
      then
        (case SuspiciousOMCLIProxyBinary om w of
           (Some err, om1, w1) \<Rightarrow> (([], Some err), om1, w1)
         | (None, om1, w1) \<Rightarrow> run_omreport om1 args w1)
      else run_omreport om args w)"

text \<open>
  The report methods (\<open>About\<close>, \<open>Chassis\<close>, ..., \<open>StoragePDisk\<close>) have one body:
  call \<open>Report\<close> with the method's arguments, return its error, otherwise decode
  the output with \<open>xml.Unmarshal\<close> into the method's output type. The decoder is a
  parameter. \<open>StoragePDisk\<close> formats its controller number with \<open>%d\<close>.
\<close>

fun dec_nat :: "nat \<Rightarrow> string" where
  "dec_nat n =
     (if n < 10 then [char_of (48 + n)] else dec_nat (n div 10) @ [char_of (48 + n mod 10)])"

declare dec_nat.simps [simp del]

definition fmt_d :: "int \<Rightarrow> string" where
  "fmt_d i = (if i < 0 then ''-'' @ dec_nat (nat (- i)) else dec_nat (nat i))"

datatype query =
    About
  | Chassis
  | ChassisBatteries
  | ChassisFans
  | ChassisInfo
  | ChassisProcessors
  | ChassisMemory
  | ChassisTemps
  | ChassisPowerMonitoring
  | ChassisPowerSupplies
  | StorageController
  | StorageEnclosure
  | StorageVDisk
  | StoragePDisk int

fun query_args :: "query \<Rightarrow> string list" where
  "query_args About = [''about'']"
| "query_args Chassis = [''chassis'']"
| "query_args ChassisBatteries = [''chassis'', ''batteries'']"
| "query_args ChassisFans = [''chassis'', ''fans'']"
| "query_args ChassisInfo = [''chassis'', ''info'']"
| "query_args ChassisProcessors = [''chassis'', ''processors'']"
| "query_args ChassisMemory = [''chassis'', ''memory'']"
| "query_args ChassisTemps = [''chassis'', ''temps'']"
| "query_args ChassisPowerMonitoring = [''chassis'', ''pwrmonitoring'']"
| "query_args ChassisPowerSupplies = [''chassis'', ''pwrsupplies'']"
| "query_args StorageController = [''storage'', ''controller'']"
| "query_args StorageEnclosure = [''storage'', ''enclosure'']"
| "query_args StorageVDisk = [''storage'', ''vdisk'']"
| "query_args (StoragePDisk cid) = [''storage'', ''pdisk'', ''controller='' @ fmt_d cid]"

definition report_method ::
  "(byte list \<Rightarrow> error + 'a) \<Rightarrow> query \<Rightarrow> OMReport \<Rightarrow> world \<Rightarrow> (error + 'a) \<times> OMReport \<times> world"
  where
  "report_method xml_Unmarshal q om w =
     (case Report om (query_args q) w of
        ((d, Some err), om1, w1) \<Rightarrow> (Inl err, om1, w1)
      | ((d, None), om1, w1) \<Rightarrow> (xml_Unmarshal d, om1, w1))"

section \<open>Callers\<close>

text \<open>
  A caller that repeats the tamper check \<open>n\<close> times in a row, and a client's
  lifetime: any sequence of calls of its methods, each made in the world as it is at
  the time of that call.
\<close>

fun tamper_checks :: "nat \<Rightarrow> OMReport \<Rightarrow> world \<Rightarrow> error option list \<times> OMReport \<times> world" where
  "tamper_checks 0 om w = ([], om, w)"
| "tamper_checks (Suc n) om w =
     (case SuspiciousOMCLIProxyBinary om w of
        (r, om1, w1) \<Rightarrow>
          (case tamper_checks n om1 w1 of (rs, om2, w2) \<Rightarrow> (r # rs, om2, w2)))"

datatype call = CallReport "string list" | CallSuspicious | CallQuery query

fun client_after ::
  "(byte list \<Rightarrow> error + 'a) \<Rightarrow> call \<Rightarrow> OMReport \<Rightarrow> world \<Rightarrow> OMReport" where
  "client_after u (CallReport args) om w = fst (snd (Report om args w))"
| "client_after u CallSuspicious om w = fst (snd (SuspiciousOMCLIProxyBinary om w))"
| "client_after u (CallQuery q) om w = fst (snd (report_method u q om w))"

fun lifetime ::
  "(byte list \<Rightarrow> error + 'a) \<Rightarrow> (call \<times> world) list \<Rightarrow> OMReport \<Rightarrow> OMReport" where
  "lifetime u [] om = om"
| "lifetime u ((c, w) # cs) om = lifetime u cs (client_after u c om w)"

section \<open>Status, state, bus protocol and layout codes\<close>

text \<open>
  The four code types are Go \<open>int\<close>s; no arithmetic is done on them, so they are
  modelled as integers. The constants are those of the source.
\<close>

definition StatusOK :: int where "StatusOK = 2"
definition StatusNonCritical :: int where "StatusNonCritical = 3"
definition StatusCritical :: int where "StatusCritical = 4"

definition StateReady :: int where "StateReady = 1"
definition StateFailed :: int where "StateFailed = 2"
definition StateOnline :: int where "StateOnline = 4"
definition StateOffline :: int where "StateOffline = 8"
definition StateDegraded :: int where "StateDegraded = 32"
definition StateNonRAID :: int where "StateNonRAID = 4096"
definition StateReplacing :: int where "StateReplacing = 2097152"
definition StateRebuilding :: int where "StateRebuilding = 8388608"
definition StateBackgroundInitialization :: int where
  "StateBackgroundInitialization = 34359738368"
definition StateForeign :: int where "StateForeign = 274877906944"
definition StateClear :: int where "StateClear = 549755813888"
definition StateDegradedRedundancy :: int where "StateDegradedRedundancy = 9007199254740992"

definition LayoutRAID0 :: int where "LayoutRAID0 = 2"
definition LayoutRAID1 :: int where "LayoutRAID1 = 4"
definition LayoutRAID5 :: int where "LayoutRAID5 = 64"
definition LayoutRAID6 :: int where "LayoutRAID6 = 128"
definition LayoutRAID60 :: int where "LayoutRAID60 = 262144"

definition BusProtocolSCSI :: int where "BusProtocolSCSI = 1"
definition BusProtocolIDE :: int where "BusProtocolIDE = 2"
definition BusProtocolSATA :: int where "BusProtocolSATA = 7"
definition BusProtocolSAS :: int where "BusProtocolSAS = 8"
definition BusProtocolPCIe :: int where "BusProtocolPCIe = 9"

text \<open>
  Go's conversion \<open>string(i)\<close> of an integer: the UTF-8 encoding of the code point
  \<open>i\<close>, and of U+FFFD when \<open>i\<close> is not a valid code point (negative, above
  U+10FFFF, or a surrogate).
\<close>

definition utf8_encode :: "int \<Rightarrow> string" where
  "utf8_encode r =
     (if r < 0x80 then [char_of r]
      else if r < 0x800 then [char_of (0xC0 + r div 64), char_of (0x80 + r mod 64)]
      else if r < 0x10000 then
        [char_of (0xE0 + r div 4096), char_of (0x80 + r div 64 mod 64),
         char_of (0x80 + r mod 64)]
      else
        [char_of (0xF0 + r div 262144), char_of (0x80 + r div 4096 mod 64),
         char_of (0x80 + r div 64 mod 64), char_of (0x80 + r mod 64)])"

definition go_string :: "int \<Rightarrow> string" where
  "go_string i =
     (if i < 0 \<or> 0x10FFFF < i \<or> (0xD800 \<le> i \<and> i \<le> 0xDFFF) then utf8_encode 0xFFFD
      else utf8_encode i)"

definition Status_String :: "int \<Rightarrow> string" where
  "Status_String s =
     (if s = StatusCritical then ''Critical''
      else if s = StatusOK then ''OK''
      else if s = StatusNonCritical then ''Non-critical''
      else ''Unknown status code '' @ go_string s)"

definition State_String :: "int \<Rightarrow> string" where
  "State_String s =
     (if s = StateOnline then ''Online''
      else if s = StateBackgroundInitialization then ''Background Initialization''
      else if s = StateClear then ''Clear''
      else if s = StateDegraded then ''Degraded''
      else if s = StateDegradedRedundancy then ''Degraded Redundancy''
      else if s = StateFailed then ''Failed''
      else if s = StateForeign then ''Foreign''
      else if s = StateNonRAID then ''Non-RAID''
      else if s = StateOffline then ''Offline''
      else if s = StateReady then ''Ready''
      else if s = StateRebuilding then ''Rebuilding''
      else if s = StateReplacing then ''Replacing''
      else ''Unknown state code '' @ go_string s)"

definition BusProtocol_String :: "int \<Rightarrow> string" where
  "BusProtocol_String b =
     (if b = BusProtocolIDE then ''IDE''
      else if b = BusProtocolPCIe then ''PCIe''
      else if b = BusProtocolSAS then ''SAS''
      else if b = BusProtocolSATA then ''SATA''
      else if b = BusProtocolSCSI then ''SCSI''
      else ''Unknown bus protocol code '' @ go_string b)"

definition Layout_String :: "int \<Rightarrow> string" where
  "Layout_String l =
     (if l = LayoutRAID0 then ''RAID-0''
      else if l = LayoutRAID1 then ''RAID-1''
      else if l = LayoutRAID5 then ''RAID-5''
      else if l = LayoutRAID6 then ''RAID-6''
      else if l = LayoutRAID60 then ''RAID-60''
      else ''Unknown layout code '' @ go_string l)"

definition known_status :: "int list" where
  "known_status = [StatusOK, StatusNonCritical, StatusCritical]"

definition known_state :: "int list" where
  "known_state =
     [StateReady, StateFailed, StateOnline, StateOffline, StateDegraded, StateNonRAID,
      StateReplacing, StateRebuilding, StateBackgroundInitialization, StateForeign,
      StateClear, StateDegradedRedundancy]"

definition known_layout :: "int list" where
  "known_layout = [LayoutRAID0, LayoutRAID1, LayoutRAID5, LayoutRAID6, LayoutRAID60]"

definition known_bus_protocol :: "int list" where
  "known_bus_protocol =
     [BusProtocolSCSI, BusProtocolIDE, BusProtocolSATA, BusProtocolSAS, BusProtocolPCIe]"

section \<open>Concrete worlds\<close>

text \<open>
  The worlds of the package's tests: a regular file \<open>testdata/omcliproxy\<close> with given
  content, the same path as a directory, the same path as a symbolic link to a regular
  file, and a regular file under another name.
\<close>

definition proxy_path :: string where
  "proxy_path = ''testdata/omcliproxy''"

definition file_at :: "string \<Rightarrow> FileMode \<Rightarrow> stream \<Rightarrow> world" where
  "file_at p m s =
     \<lparr>lstat_of = (\<lambda>q. if q = p then Inr m else Inl ENOENT),
      open_of = (\<lambda>q. if q = p then Inr s else Inl ENOENT),
      exec_of = (\<lambda>q args. ([], None)),
      open_fds = [0, 1, 2],
      trace = []\<rparr>"

definition readable :: "byte list \<Rightarrow> stream" where
  "readable c = \<lparr>data = c, read_err = None, close_err = None\<rparr>"

definition foo :: "byte list" where "foo = [0x66, 0x6f, 0x6f]"
definition bar :: "byte list" where "bar = [0x62, 0x61, 0x72]"

definition foo_world :: world where
  "foo_world = file_at proxy_path 0x1A4 (readable foo)"

definition bar_world :: world where
  "bar_world = file_at proxy_path 0x1A4 (readable bar)"

definition dir_world :: world where
  "dir_world = file_at proxy_path (ModeDir OR 0x1ED)
                 \<lparr>data = [], read_err = Some EISDIR, close_err = None\<rparr>"

definition link_world :: world where
  "link_world = file_at proxy_path (ModeSymlink OR 0x1FF) (readable foo)"

definition malicious_world :: world where
  "malicious_world = file_at ''testdata/maliciousproxy'' 0x1ED (readable foo)"

definition proxy_cfg :: "bool \<Rightarrow> Config" where
  "proxy_cfg b = \<lparr>OMCLIProxyPath = proxy_path, EnhancedSecurityMode = b\<rparr>"

definition foo_digest :: "byte list" where
  "foo_digest =
     [0x2c, 0x26, 0xb4, 0x6b, 0x68, 0xff, 0xc6, 0x8f, 0xf9, 0x9b, 0x45, 0x3c, 0x1d, 0x30,
      0x41, 0x34, 0x13, 0x42, 0x2d, 0x70, 0x64, 0x83, 0xbf, 0xa0, 0xf9, 0x8a, 0x5e, 0x88,
      0x62, 0x66, 0xe7, 0xae]"

definition bar_digest :: "byte list" where
  "bar_digest =
     [0xfc, 0xde, 0x2b, 0x2e, 0xdb, 0xa5, 0x6b, 0xf4, 0x08, 0x60, 0x1f, 0xb7, 0x21, 0xfe,
      0x9b, 0x5c, 0x33, 0x8d, 0x10, 0xee, 0x42, 0x9e, 0xa0, 0x4f, 0xae, 0x55, 0x11, 0xb6,
      0x8f, 0xbf, 0x8f, 0xb9]"

definition foo_client :: OMReport where
  "foo_client =
     \<lparr>omCLIProxyPath = proxy_path, enhancedSecurityMode = True, sha256Checksum = foo_digest\<rparr>"

definition foo_after :: world where
  "foo_after = foo_world\<lparr>trace := [EvLstat proxy_path, EvOpen proxy_path, EvRead 3, EvClose 3]\<rparr>"

definition chassis_world :: world where
  "chassis_world = foo_after\<lparr>exec_of := (\<lambda>p args.
      if p = proxy_path \<and> args = [''omreport'', ''chassis'', ''-fmt'', ''xml'']
      then ([0x3c, 0x4f, 0x4d, 0x41, 0x2f, 0x3e], None)
      else ([], Some (ExecError ''exit status 1'')))\<rparr>"

text \<open>
  Contents of two blocks that differ only after the first 64 bytes, and the world and
  the client of the tests for any content.
\<close>

definition long_foo :: "byte list" where "long_foo = replicate 64 0x61 @ foo"
definition long_bar :: "byte list" where "long_bar = replicate 64 0x61 @ bar"

definition long_foo_digest :: "byte list" where
  "long_foo_digest =
     [0x4a, 0x8a, 0xc1, 0x86, 0xf6, 0x6c, 0xb7, 0xee, 0xea, 0x9e, 0x04, 0x12, 0xae, 0x5d,
      0x05, 0x94, 0x68, 0x4a, 0x64, 0x22, 0x38, 0x7d, 0x33, 0xcc, 0x24, 0x7a, 0xe9, 0x53,
      0x10, 0xb9, 0x66, 0xdd]"

definition long_bar_digest :: "byte list" where
  "long_bar_digest =
     [0xe8, 0xce, 0x32, 0xfe, 0x29, 0xaa, 0x65, 0x9f, 0x8c, 0x30, 0x4c, 0xf9, 0x5e, 0x3b,
      0x00, 0xa3, 0x4f, 0x78, 0x37, 0x28, 0x3d, 0x42, 0x0d, 0xf3, 0xc8, 0x6a, 0x76, 0xca,
      0xb2, 0x38, 0x20, 0x6e]"

definition content_world :: "byte list \<Rightarrow> world" where
  "content_world c = file_at proxy_path 0x1A4 (readable c)"

definition content_client :: "byte list \<Rightarrow> OMReport" where
  "content_client c =
     \<lparr>omCLIProxyPath = proxy_path, enhancedSecurityMode = True, sha256Checksum = sha256 c\<rparr>"

section \<open>The digest\<close>

lemma sha256_foo: "sha256 foo = foo_digest"
  unfolding foo_def foo_digest_def by code_simp

lemma sha256_bar: "sha256 bar = bar_digest"
  unfolding bar_def bar_digest_def by code_simp

lemma sha256_long_foo: "sha256 long_foo = long_foo_digest"
  unfolding long_foo_def foo_def long_foo_digest_def by code_simp

lemma sha256_long_bar: "sha256 long_bar = long_bar_digest"
  unfolding long_bar_def bar_def long_bar_digest_def by code_simp

section \<open>Paths\<close>

lemma Base_proxy_nonempty:
  "filepath_Base p = DefaultOMCLIProxyBinaryName \<Longrightarrow> p \<noteq> []"
  by (auto simp: filepath_Base_def DefaultOMCLIProxyBinaryName_def)

lemma Base_proxy_path: "filepath_Base proxy_path = DefaultOMCLIProxyBinaryName"
  by (simp add: filepath_Base_def proxy_path_def DefaultOMCLIProxyBinaryName_def
      strip_trailing_slashes_def last_element_def)

lemma Base_malicious: "filepath_Base ''testdata/maliciousproxy'' \<noteq> DefaultOMCLIProxyBinaryName"
  by (simp add: filepath_Base_def DefaultOMCLIProxyBinaryName_def
      strip_trailing_slashes_def last_element_def)

section \<open>The digest has 32 bytes\<close>

lemma length_round: "length s = 8 \<Longrightarrow> length (round s kw) = 8"
proof -
  assume "length s = 8"
  then obtain a b c d e f g h where "s = [a, b, c, d, e, f, g, h]"
    by (auto simp: length_Suc_conv eval_nat_numeral)
  then show ?thesis by (cases kw) (simp add: Let_def)
qed

lemma length_foldl_round: "length s = 8 \<Longrightarrow> length (foldl round s kws) = 8"
  by (induction kws arbitrary: s) (simp_all add: length_round)

lemma length_block: "length h = 8 \<Longrightarrow> length (block h w) = 8"
  by (simp add: block_def length_foldl_round)

lemma length_blocks: "length h = 8 \<Longrightarrow> length (blocks n h ws) = 8"
  by (induction n arbitrary: h ws) (simp_all add: length_block)

lemma length_concat_be_bytes: "length (concat (map be_bytes ws)) = 4 * length ws"
  by (induction ws) (simp_all add: be_bytes_def)

lemma length_sha256: "length (sha256 m) = 32"
  by (simp add: sha256_def Let_def length_concat_be_bytes length_blocks sha256_init_def)

section \<open>fileSha256\<close>

lemma fst_fileSha256:
  "fst (fileSha256 p w) =
     (case open_of w p of
        Inl e \<Rightarrow> Inl (PathError ''open'' p e)
      | Inr s \<Rightarrow>
          (case read_err s of
             Some e \<Rightarrow> Inl (PathError ''read'' p e)
           | None \<Rightarrow>
               (case close_err s of
                  Some e \<Rightarrow> Inl (PathError ''close'' p e)
                | None \<Rightarrow> Inr (sha256 (data s)))))"
  by (simp add: fileSha256_def os_Open_def io_Copy_def file_Close_def sha256_New_def
      hash_Write_def hash_Sum_def split: sum.split option.split)

lemma snd_fileSha256:
  "snd (fileSha256 p w) =
     (case open_of w p of
        Inl e \<Rightarrow> emit (EvOpen p) w
      | Inr s \<Rightarrow>
          (case read_err s of
             Some e \<Rightarrow>
               emit (EvRead (new_fd (open_fds w)))
                 (emit (EvOpen p) (w\<lparr>open_fds := new_fd (open_fds w) # open_fds w\<rparr>))
           | None \<Rightarrow>
               emit (EvClose (new_fd (open_fds w)))
                 (emit (EvRead (new_fd (open_fds w))) (emit (EvOpen p) w))))"
  by (simp add: fileSha256_def os_Open_def io_Copy_def file_Close_def emit_def
      split: sum.split option.split)

lemma fileSha256_answers:
  "open_of (snd (fileSha256 p w)) = open_of w"
  "lstat_of (snd (fileSha256 p w)) = lstat_of w"
  "exec_of (snd (fileSha256 p w)) = exec_of w"
  by (simp_all add: snd_fileSha256 emit_def split: sum.split option.split)

lemma fold_max_ge: "a \<le> fold max fds (a::nat)"
  by (induction fds arbitrary: a) (auto intro: order_trans [OF max.cobounded2])

lemma fold_max_mem: "x \<in> set fds \<Longrightarrow> x \<le> fold max fds (a::nat)"
proof (induction fds arbitrary: a)
  case Nil
  then show ?case by simp
next
  case (Cons y ys)
  show ?case
  proof (cases "x = y")
    case True
    have "y \<le> max y a" by simp
    also have "\<dots> \<le> fold max ys (max y a)" by (rule fold_max_ge)
    finally show ?thesis using True by simp
  next
    case False
    with Cons.prems have "x \<in> set ys" by simp
    then show ?thesis by (simp add: Cons.IH)
  qed
qed

lemma new_fd_fresh: "new_fd fds \<notin> set fds"
proof
  assume "new_fd fds \<in> set fds"
  then have "new_fd fds \<le> fold max fds 2" by (rule fold_max_mem)
  then show False by (simp add: new_fd_def)
qed

text \<open>The descriptor stays open exactly when the read fails.\<close>

lemma fileSha256_open_fds:
  "open_fds (snd (fileSha256 p w)) =
     (case open_of w p of
        Inl e \<Rightarrow> open_fds w
      | Inr s \<Rightarrow>
          (case read_err s of
             Some e \<Rightarrow> new_fd (open_fds w) # open_fds w
           | None \<Rightarrow> open_fds w))"
  by (simp add: snd_fileSha256 emit_def split: sum.split option.split)

text \<open>
  C1. The claim: every exit path of \<open>fileSha256\<close> releases the file handle it
  acquired, also when the read fails midstream. The code closes the file only after a
  successful copy (there is no \<open>defer\<close>): at a directory named
  \<open>testdata/omcliproxy\<close> the open succeeds with descriptor 3, the read fails with
  \<open>EISDIR\<close>, and \<open>fileSha256\<close> returns that error with descriptor 3 still among
  the open descriptors and no close in the log.
\<close>

theorem fileSha256_read_error_leaks_handle:
  "fileSha256 proxy_path dir_world =
     (Inl (PathError ''read'' proxy_path EISDIR),
      dir_world\<lparr>open_fds := [3, 0, 1, 2], trace := [EvOpen proxy_path, EvRead 3]\<rparr>)"
  by (simp add: fileSha256_def os_Open_def io_Copy_def file_Close_def emit_def
      dir_world_def file_at_def new_fd_def)

section \<open>allowedOMCLIProxyBinary\<close>

lemma fst_allowed:
  "fst (allowedOMCLIProxyBinary om w) =
     (if filepath_Base (omCLIProxyPath om) \<noteq> DefaultOMCLIProxyBinaryName
      then Some BinaryNameError
      else
        (case lstat_of w (omCLIProxyPath om) of
           Inl e \<Rightarrow> Some (PathError ''lstat'' (omCLIProxyPath om) e)
         | Inr m \<Rightarrow>
             (if m AND ModeSymlink \<noteq> 0 then Some (SymlinkError (omCLIProxyPath om))
              else None)))"
  by (simp add: allowedOMCLIProxyBinary_def os_Lstat_def split: sum.split)

lemma snd_allowed:
  "snd (allowedOMCLIProxyBinary om w) =
     (if filepath_Base (omCLIProxyPath om) \<noteq> DefaultOMCLIProxyBinaryName then w
      else emit (EvLstat (omCLIProxyPath om)) w)"
  by (simp add: allowedOMCLIProxyBinary_def os_Lstat_def split: sum.split)

text \<open>
  C2, as stated: validation fails for every path named \<open>omcliproxy\<close> whose entry is
  not a regular file. It does not: a directory of that name passes.
\<close>

theorem allowed_directory_counterexample:
  "filepath_Base proxy_path = DefaultOMCLIProxyBinaryName
   \<and> lstat_of dir_world proxy_path = Inr (ModeDir OR 0x1ED)
   \<and> \<not> IsRegular (ModeDir OR 0x1ED)
   \<and> fst (allowedOMCLIProxyBinary
            \<lparr>omCLIProxyPath = proxy_path, enhancedSecurityMode = True, sha256Checksum = []\<rparr>
            dir_world) = None"
  by (simp add: Base_proxy_path fst_allowed dir_world_def file_at_def IsRegular_def
      ModeType_def ModeDir_def ModeSymlink_def ModeNamedPipe_def ModeSocket_def
      ModeDevice_def ModeCharDevice_def ModeIrregular_def)

text \<open>
  C2, amended: \<open>allowedOMCLIProxyBinary\<close> succeeds exactly when the final path
  component is \<open>omcliproxy\<close>, \<open>Lstat\<close> of the path succeeds, and the mode it reports
  does not have the symbolic-link bit; no other type bit is looked at.
\<close>

theorem allowed_iff_name_and_no_symlink:
  "(fst (allowedOMCLIProxyBinary om w) = None) =
     (filepath_Base (omCLIProxyPath om) = DefaultOMCLIProxyBinaryName
      \<and> (\<exists>m. lstat_of w (omCLIProxyPath om) = Inr m \<and> m AND ModeSymlink = 0))"
  by (auto simp: fst_allowed split: sum.split)

section \<open>NewOMReporter\<close>

lemma NewOMReporter_eq:
  "NewOMReporter cfg w =
     (if filepath_Base (OMCLIProxyPath cfg) \<noteq> DefaultOMCLIProxyBinaryName
      then (Inl BinaryNameError, w)
      else
        (case lstat_of w (OMCLIProxyPath cfg) of
           Inl e \<Rightarrow> (Inl (PathError ''lstat'' (OMCLIProxyPath cfg) e),
                     emit (EvLstat (OMCLIProxyPath cfg)) w)
         | Inr m \<Rightarrow>
             (if m AND ModeSymlink \<noteq> 0
              then (Inl (SymlinkError (OMCLIProxyPath cfg)), emit (EvLstat (OMCLIProxyPath cfg)) w)
              else
                (case fst (fileSha256 (OMCLIProxyPath cfg) (emit (EvLstat (OMCLIProxyPath cfg)) w)) of
                   Inl e \<Rightarrow>
                     (Inl e, snd (fileSha256 (OMCLIProxyPath cfg) (emit (EvLstat (OMCLIProxyPath cfg)) w)))
                 | Inr c \<Rightarrow>
                     (Inr \<lparr>omCLIProxyPath = OMCLIProxyPath cfg,
                           enhancedSecurityMode = EnhancedSecurityMode cfg,
                           sha256Checksum = c\<rparr>,
                      snd (fileSha256 (OMCLIProxyPath cfg) (emit (EvLstat (OMCLIProxyPath cfg)) w)))))))"
  by (simp add: NewOMReporter_def allowedOMCLIProxyBinary_def os_Lstat_def
      split: sum.split prod.split option.split)

lemma emit_answers:
  "open_of (emit e w) = open_of w" "lstat_of (emit e w) = lstat_of w"
  "exec_of (emit e w) = exec_of w" "open_fds (emit e w) = open_fds w"
  by (simp_all add: emit_def)

text \<open>What a successful construction tells about the world it ran in.\<close>

lemma NewOMReporter_Inr:
  assumes "NewOMReporter cfg w = (Inr om, w1)"
  shows "filepath_Base (OMCLIProxyPath cfg) = DefaultOMCLIProxyBinaryName"
    and "omCLIProxyPath om = OMCLIProxyPath cfg"
    and "enhancedSecurityMode om = EnhancedSecurityMode cfg"
    and "\<exists>s. open_of w (OMCLIProxyPath cfg) = Inr s \<and> read_err s = None
           \<and> close_err s = None \<and> sha256Checksum om = sha256 (data s)"
    and "open_of w1 = open_of w"
  using assms
  by (auto simp: NewOMReporter_eq fst_fileSha256 fileSha256_answers emit_answers
      split: if_splits sum.splits option.splits)

section \<open>SuspiciousOMCLIProxyBinary, Report\<close>

lemma fst_Suspicious:
  "fst (SuspiciousOMCLIProxyBinary om w) =
     (case fst (fileSha256 (omCLIProxyPath om) w) of
        Inl e \<Rightarrow> Some e
      | Inr cur \<Rightarrow>
          (if cur \<noteq> sha256Checksum om then Some (ChecksumError cur (sha256Checksum om))
           else None))"
  by (simp add: SuspiciousOMCLIProxyBinary_def split: prod.split sum.split)

lemma Suspicious_client: "fst (snd (SuspiciousOMCLIProxyBinary om w)) = om"
  by (simp add: SuspiciousOMCLIProxyBinary_def split: prod.split sum.split)

lemma Suspicious_world:
  "snd (snd (SuspiciousOMCLIProxyBinary om w)) = snd (fileSha256 (omCLIProxyPath om) w)"
  by (simp add: SuspiciousOMCLIProxyBinary_def split: prod.split sum.split)

lemma default_path_id: "omCLIProxyPath om \<noteq> [] \<Longrightarrow> default_path om = om"
  by (simp add: default_path_def)

lemma run_omreport_client: "fst (snd (run_omreport om args w)) = om"
  by (simp add: run_omreport_def exec_CombinedOutput_def)

lemma Report_client: "fst (snd (Report om args w)) = default_path om"
proof (cases "SuspiciousOMCLIProxyBinary (default_path om) w")
  case (fields r om1 w1)
  then have "om1 = default_path om"
    using Suspicious_client [of "default_path om" w] by simp
  with fields show ?thesis
    by (cases r) (simp_all add: Report_def Let_def run_omreport_client)
qed

lemma report_method_client: "fst (snd (report_method u q om w)) = default_path om"
proof (cases "Report om (query_args q) w")
  case (fields out om1 w1)
  then have "om1 = default_path om"
    using Report_client [of om "query_args q" w] by simp
  with fields show ?thesis
    by (cases out) (simp add: report_method_def split: option.split)
qed

lemma client_after_id: "omCLIProxyPath om \<noteq> [] \<Longrightarrow> client_after u c om w = om"
  by (cases c) (simp_all add: Report_client Suspicious_client report_method_client default_path_id)

lemma lifetime_id: "omCLIProxyPath om \<noteq> [] \<Longrightarrow> lifetime u cs om = om"
  by (induction cs) (auto simp: client_after_id)

lemma tamper_checks_unmodified:
  assumes "open_of w (omCLIProxyPath om) = Inr s" "read_err s = None" "close_err s = None"
    and "sha256Checksum om = sha256 (data s)"
  shows "fst (tamper_checks n om w) = replicate n None
         \<and> fst (snd (tamper_checks n om w)) = om"
  using assms(1)
proof (induction n arbitrary: w)
  case 0
  then show ?case by simp
next
  case (Suc n)
  obtain r om1 w1 where S: "SuspiciousOMCLIProxyBinary om w = (r, om1, w1)"
    by (cases "SuspiciousOMCLIProxyBinary om w") auto
  have r: "r = None"
    using fst_Suspicious [of om w] S Suc.prems assms(2-4) by (simp add: fst_fileSha256)
  have om1: "om1 = om" using Suspicious_client [of om w] S by simp
  have "w1 = snd (fileSha256 (omCLIProxyPath om) w)"
    using Suspicious_world [of om w] S by simp
  then have "open_of w1 (omCLIProxyPath om) = Inr s"
    using Suc.prems by (simp add: fileSha256_answers)
  then have IH: "fst (tamper_checks n om w1) = replicate n None
                 \<and> fst (snd (tamper_checks n om w1)) = om"
    by (rule Suc.IH)
  obtain rs om2 w2 where T: "tamper_checks n om w1 = (rs, om2, w2)"
    by (cases "tamper_checks n om w1") auto
  with IH have "rs = replicate n None" "om2 = om" by simp_all
  then show ?case using S r om1 T by simp
qed

text \<open>
  C3. A client that \<open>NewOMReporter\<close> returned has a non-empty path (its base name is
  \<open>omcliproxy\<close>), so the default-path fallback of \<open>Report\<close> leaves it as it is;
  \<open>Report\<close>, \<open>SuspiciousOMCLIProxyBinary\<close> and every report method return the
  client unchanged in whatever world they run, and so does every sequence of such
  calls: the stored path and the stored checksum are those of the construction. Any
  number of tamper checks in a row, in the world the construction left or in any world
  where opening the path answers as it did at construction, all report no error.
\<close>

theorem constructed_client_is_immutable:
  assumes "NewOMReporter cfg w0 = (Inr om, w1)"
  shows "omCLIProxyPath om = OMCLIProxyPath cfg \<and> omCLIProxyPath om \<noteq> []
         \<and> default_path om = om
         \<and> fst (snd (Report om args w)) = om
         \<and> fst (snd (SuspiciousOMCLIProxyBinary om w)) = om
         \<and> fst (snd (report_method u q om w)) = om
         \<and> lifetime u calls om = om
         \<and> fst (tamper_checks n om w1) = replicate n None
         \<and> (open_of w (omCLIProxyPath om) = open_of w0 (omCLIProxyPath om) \<longrightarrow>
              fst (tamper_checks n om w) = replicate n None)"
proof -
  note c = NewOMReporter_Inr [OF assms]
  have p: "omCLIProxyPath om \<noteq> []"
    using c(1,2) by (simp add: Base_proxy_nonempty)
  obtain s where s: "open_of w0 (omCLIProxyPath om) = Inr s" "read_err s = None"
      "close_err s = None" "sha256Checksum om = sha256 (data s)"
    using c(2,4) by auto
  have "fst (tamper_checks n om w') = replicate n None"
    if "open_of w' (omCLIProxyPath om) = open_of w0 (omCLIProxyPath om)" for w'
    using tamper_checks_unmodified [of w' om s n] that s by simp
  then show ?thesis
    using p c(2,5)
    by (simp add: default_path_id Report_client Suspicious_client report_method_client
        lifetime_id)
qed

lemma NewOMReporter_foo_world:
  "NewOMReporter (proxy_cfg b) foo_world = (Inr (foo_client\<lparr>enhancedSecurityMode := b\<rparr>), foo_after)"
  by (simp add: NewOMReporter_eq proxy_cfg_def Base_proxy_path fst_fileSha256 snd_fileSha256
      emit_def foo_world_def file_at_def readable_def ModeSymlink_def foo_client_def
      foo_after_def new_fd_def sha256_foo [unfolded foo_def] foo_def)

theorem constructed_client_is_immutable_witness:
  "NewOMReporter (proxy_cfg True) foo_world = (Inr foo_client, foo_after)
   \<and> fst (snd (Report foo_client [''chassis''] bar_world)) = foo_client
   \<and> lifetime (\<lambda>d. Inr d)
        [(CallReport [''chassis''], bar_world), (CallSuspicious, foo_world),
         (CallQuery (StoragePDisk 0), dir_world)] foo_client = foo_client
   \<and> fst (tamper_checks 3 foo_client foo_after) = [None, None, None]"
proof -
  have h: "NewOMReporter (proxy_cfg True) foo_world = (Inr foo_client, foo_after)"
    using NewOMReporter_foo_world [of True] by (simp add: foo_client_def)
  have r: "replicate 3 None = [None :: error option, None, None]"
    by (simp add: numeral_3_eq_3)
  show ?thesis
    using h constructed_client_is_immutable [OF h, of "[''chassis'']" bar_world "\<lambda>d. Inr d"
        "StoragePDisk 0"
        "[(CallReport [''chassis''], bar_world), (CallSuspicious, foo_world),
          (CallQuery (StoragePDisk 0), dir_world)]" 3]
    unfolding r by blast
qed

section \<open>The tamper check\<close>

lemma fileSha256_foo_world: "fst (fileSha256 proxy_path foo_world) = Inr foo_digest"
  by (simp add: fst_fileSha256 foo_world_def file_at_def readable_def sha256_foo)

lemma fileSha256_bar_world: "fst (fileSha256 proxy_path bar_world) = Inr bar_digest"
  by (simp add: fst_fileSha256 bar_world_def file_at_def readable_def sha256_bar)

lemma bar_digest_neq_foo_digest: "bar_digest \<noteq> foo_digest"
  by (simp add: bar_digest_def foo_digest_def)

text \<open>
  C4. \<open>SuspiciousOMCLIProxyBinary\<close> returns no error exactly when \<open>fileSha256\<close> of
  the stored path returns a checksum and that checksum equals the stored one. When it
  returns a different checksum, the error is the checksum error made of the current and
  the stored checksum, whose text contains both; when \<open>fileSha256\<close> fails, its error
  is returned.
\<close>

theorem Suspicious_verdict:
  "(fst (SuspiciousOMCLIProxyBinary om w) = None)
     = (fst (fileSha256 (omCLIProxyPath om) w) = Inr (sha256Checksum om))
   \<and> (fst (fileSha256 (omCLIProxyPath om) w) = Inr cur \<and> cur \<noteq> sha256Checksum om \<longrightarrow>
        fst (SuspiciousOMCLIProxyBinary om w) = Some (ChecksumError cur (sha256Checksum om))
        \<and> error_string (ChecksumError cur (sha256Checksum om)) =
            ''current binary checksum '' @ bytes_string cur
              @ '' does not match the original checksum '' @ bytes_string (sha256Checksum om)
              @ '' which is very suspicious'')
   \<and> (fst (fileSha256 (omCLIProxyPath om) w) = Inl e \<longrightarrow>
        fst (SuspiciousOMCLIProxyBinary om w) = Some e)"
  by (cases "fst (fileSha256 (omCLIProxyPath om) w)") (auto simp: fst_Suspicious)

theorem Suspicious_verdict_witness:
  "fst (fileSha256 (omCLIProxyPath foo_client) bar_world) = Inr bar_digest
   \<and> bar_digest \<noteq> sha256Checksum foo_client
   \<and> fst (SuspiciousOMCLIProxyBinary foo_client bar_world)
       = Some (ChecksumError bar_digest foo_digest)
   \<and> fst (fileSha256 (omCLIProxyPath foo_client) foo_world) = Inr (sha256Checksum foo_client)
   \<and> fst (SuspiciousOMCLIProxyBinary foo_client foo_world) = None"
  using Suspicious_verdict [of foo_client bar_world bar_digest]
    Suspicious_verdict [of foo_client foo_world]
    fileSha256_foo_world fileSha256_bar_world bar_digest_neq_foo_digest
  by (simp add: foo_client_def)

section \<open>Construction\<close>

text \<open>
  C5. When the base name of the path is \<open>omcliproxy\<close>, \<open>Lstat\<close> reports a mode
  without the symbolic-link bit, and the path opens, reads to the end and closes
  without error, \<open>NewOMReporter\<close> returns a client whose path and flag are those of
  the configuration and whose checksum is the SHA-256 digest of the bytes read, 32
  bytes long; \<open>fileSha256\<close> of the same path in the world the construction left
  returns that same checksum.
\<close>

theorem NewOMReporter_baseline:
  assumes "filepath_Base (OMCLIProxyPath cfg) = DefaultOMCLIProxyBinaryName"
    and "lstat_of w (OMCLIProxyPath cfg) = Inr m" and "m AND ModeSymlink = 0"
    and "open_of w (OMCLIProxyPath cfg) = Inr s" and "read_err s = None"
    and "close_err s = None"
  shows "fst (NewOMReporter cfg w) =
           Inr \<lparr>omCLIProxyPath = OMCLIProxyPath cfg,
                enhancedSecurityMode = EnhancedSecurityMode cfg,
                sha256Checksum = sha256 (data s)\<rparr>
         \<and> length (sha256 (data s)) = 32
         \<and> fst (fileSha256 (OMCLIProxyPath cfg) (snd (NewOMReporter cfg w)))
             = Inr (sha256 (data s))"
  using assms
  by (simp add: NewOMReporter_eq fst_fileSha256 fileSha256_answers emit_answers length_sha256)

theorem NewOMReporter_baseline_witness:
  "filepath_Base (OMCLIProxyPath (proxy_cfg True)) = DefaultOMCLIProxyBinaryName
   \<and> lstat_of foo_world (OMCLIProxyPath (proxy_cfg True)) = Inr 0x1A4
   \<and> (0x1A4 :: FileMode) AND ModeSymlink = 0
   \<and> open_of foo_world (OMCLIProxyPath (proxy_cfg True)) = Inr (readable foo)
   \<and> fst (NewOMReporter (proxy_cfg True) foo_world) = Inr foo_client
   \<and> length foo_digest = 32
   \<and> fst (fileSha256 proxy_path (snd (NewOMReporter (proxy_cfg True) foo_world)))
       = Inr foo_digest"
proof -
  have p: "OMCLIProxyPath (proxy_cfg True) = proxy_path"
    by (simp add: proxy_cfg_def)
  have 1: "filepath_Base (OMCLIProxyPath (proxy_cfg True)) = DefaultOMCLIProxyBinaryName"
    by (simp add: p Base_proxy_path)
  have 2: "lstat_of foo_world (OMCLIProxyPath (proxy_cfg True)) = Inr 0x1A4"
    by (simp add: p foo_world_def file_at_def)
  have 3: "(0x1A4 :: FileMode) AND ModeSymlink = 0"
    by (simp add: ModeSymlink_def)
  have 4: "open_of foo_world (OMCLIProxyPath (proxy_cfg True)) = Inr (readable foo)"
    by (simp add: p foo_world_def file_at_def)
  have 5: "read_err (readable foo) = None" "close_err (readable foo) = None"
    "data (readable foo) = foo"
    by (simp_all add: readable_def)
  show ?thesis
    using 1 2 3 4 NewOMReporter_baseline [OF 1 2 3 4 5(1,2)]
    by (simp add: 5 p sha256_foo foo_client_def proxy_cfg_def)
qed

text \<open>
  C6. When the base name of the configured path is not \<open>omcliproxy\<close>,
  \<open>NewOMReporter\<close> returns the binary-name error and no client, in every world, and
  leaves the world as it was: it has made no system call.
\<close>

theorem NewOMReporter_rejects_other_names:
  "filepath_Base (OMCLIProxyPath cfg) \<noteq> DefaultOMCLIProxyBinaryName \<Longrightarrow>
     NewOMReporter cfg w = (Inl BinaryNameError, w)"
  by (simp add: NewOMReporter_eq)

theorem NewOMReporter_rejects_other_names_witness:
  "filepath_Base (OMCLIProxyPath
       \<lparr>OMCLIProxyPath = ''testdata/maliciousproxy'', EnhancedSecurityMode = True\<rparr>)
     \<noteq> DefaultOMCLIProxyBinaryName
   \<and> NewOMReporter \<lparr>OMCLIProxyPath = ''testdata/maliciousproxy'', EnhancedSecurityMode = True\<rparr>
       malicious_world = (Inl BinaryNameError, malicious_world)"
proof -
  have h: "filepath_Base (OMCLIProxyPath
       \<lparr>OMCLIProxyPath = ''testdata/maliciousproxy'', EnhancedSecurityMode = True\<rparr>)
     \<noteq> DefaultOMCLIProxyBinaryName"
    using Base_malicious by simp
  show ?thesis
    using h NewOMReporter_rejects_other_names [OF h, of malicious_world] by blast
qed

text \<open>
  C7. When \<open>Lstat\<close> of the configured path reports a mode with the symbolic-link
  bit, \<open>NewOMReporter\<close> returns an error and no client: the symbolic-link error when
  the base name is \<open>omcliproxy\<close> (after the one \<open>Lstat\<close>, the file is never opened),
  the binary-name error otherwise. What the link points to is not looked at.
\<close>

theorem NewOMReporter_rejects_symlink:
  assumes "lstat_of w (OMCLIProxyPath cfg) = Inr m" and "m AND ModeSymlink \<noteq> 0"
  shows "NewOMReporter cfg w =
           (if filepath_Base (OMCLIProxyPath cfg) = DefaultOMCLIProxyBinaryName
            then (Inl (SymlinkError (OMCLIProxyPath cfg)), emit (EvLstat (OMCLIProxyPath cfg)) w)
            else (Inl BinaryNameError, w))"
  using assms by (simp add: NewOMReporter_eq)

theorem NewOMReporter_rejects_symlink_witness:
  "lstat_of link_world (OMCLIProxyPath (proxy_cfg True)) = Inr (ModeSymlink OR 0x1FF)
   \<and> (ModeSymlink OR 0x1FF) AND ModeSymlink \<noteq> 0
   \<and> open_of link_world (OMCLIProxyPath (proxy_cfg True)) = Inr (readable foo)
   \<and> NewOMReporter (proxy_cfg True) link_world
       = (Inl (SymlinkError proxy_path), emit (EvLstat proxy_path) link_world)"
proof -
  have p: "OMCLIProxyPath (proxy_cfg True) = proxy_path"
    by (simp add: proxy_cfg_def)
  have 1: "lstat_of link_world (OMCLIProxyPath (proxy_cfg True)) = Inr (ModeSymlink OR 0x1FF)"
    by (simp add: p link_world_def file_at_def)
  have 2: "(ModeSymlink OR 0x1FF) AND ModeSymlink \<noteq> 0"
    by (simp add: ModeSymlink_def)
  have 3: "open_of link_world (OMCLIProxyPath (proxy_cfg True)) = Inr (readable foo)"
    by (simp add: p link_world_def file_at_def)
  show ?thesis
    using 1 2 3 NewOMReporter_rejects_symlink [OF 1 2]
    by (simp add: p Base_proxy_path)
qed

section \<open>Altered and restored content\<close>

lemma NewOMReporter_content_world:
  "NewOMReporter (proxy_cfg True) (content_world c) =
     (Inr (content_client c),
      (content_world c)\<lparr>trace := [EvLstat proxy_path, EvOpen proxy_path, EvRead 3, EvClose 3]\<rparr>)"
  by (simp add: NewOMReporter_eq proxy_cfg_def Base_proxy_path fst_fileSha256 snd_fileSha256
      emit_def content_world_def file_at_def readable_def ModeSymlink_def content_client_def
      new_fd_def)

lemma Suspicious_content_world:
  "fst (SuspiciousOMCLIProxyBinary (content_client c) (content_world c')) =
     (if sha256 c' = sha256 c then None
      else Some (ChecksumError (sha256 c') (sha256 c)))"
  by (simp add: fst_Suspicious fst_fileSha256 content_client_def content_world_def
      file_at_def readable_def)

lemma open_content_world: "open_of (content_world c) proxy_path = Inr (readable c)"
  by (simp add: content_world_def file_at_def)

text \<open>
  A digest of 32 bytes cannot tell all byte strings apart: there are finitely many
  digests and infinitely many contents.
\<close>

lemma sha256_collision: "\<exists>c c'. c' \<noteq> c \<and> sha256 c' = sha256 c"
proof (rule ccontr)
  assume "\<not> (\<exists>c c'. c' \<noteq> c \<and> sha256 c' = sha256 c)"
  then have "inj sha256"
    by (auto simp: inj_on_def)
  moreover have "finite (range sha256)"
  proof (rule finite_subset)
    show "range sha256 \<subseteq> {xs. set xs \<subseteq> UNIV \<and> length xs = 32}"
      by (auto simp: length_sha256)
    show "finite {xs :: byte list. set xs \<subseteq> UNIV \<and> length xs = 32}"
      by (rule finite_lists_length_eq) simp
  qed
  ultimately have "finite (UNIV :: byte list set)"
    by (rule finite_imageD [rotated])
  then show False
    using infinite_UNIV_listI by blast
qed

text \<open>
  C8, as stated: whenever the bytes at the trusted path are altered after
  construction, the next tamper check reports a mismatch. Not for every alteration:
  there are a content, a client constructed on it, and a different content on which
  the check of that client returns no error.
\<close>

theorem altered_content_undetected_counterexample:
  "\<exists>c c'. c' \<noteq> c
     \<and> fst (NewOMReporter (proxy_cfg True) (content_world c)) = Inr (content_client c)
     \<and> open_of (content_world c) proxy_path = Inr (readable c)
     \<and> open_of (content_world c') proxy_path = Inr (readable c')
     \<and> fst (SuspiciousOMCLIProxyBinary (content_client c) (content_world c')) = None"
proof -
  obtain c c' where "c' \<noteq> c" "sha256 c' = sha256 c"
    using sha256_collision by blast
  then have "c' \<noteq> c
     \<and> fst (NewOMReporter (proxy_cfg True) (content_world c)) = Inr (content_client c)
     \<and> open_of (content_world c) proxy_path = Inr (readable c)
     \<and> open_of (content_world c') proxy_path = Inr (readable c')
     \<and> fst (SuspiciousOMCLIProxyBinary (content_client c) (content_world c')) = None"
    by (simp add: NewOMReporter_content_world Suspicious_content_world open_content_world)
  then show ?thesis
    by blast
qed

text \<open>
  C8, amended. The verdict of the tamper check is a function of the SHA-256 digest of
  the bytes that the stored path delivers, and of nothing else in the world. For a
  client constructed while the path delivered \<open>data s\<close>: in any later world where the
  path delivers bytes \<open>c'\<close>, the check returns the checksum error with both digests
  when the digest of \<open>c'\<close> differs from the baseline, and no error when it is equal;
  in any later world where the path delivers the original bytes again, whatever else
  has changed, the check returns no error.
\<close>

theorem tamper_check_follows_content:
  assumes "NewOMReporter cfg w0 = (Inr om, w1)"
    and "open_of w0 (OMCLIProxyPath cfg) = Inr s"
    and "open_of w2 (OMCLIProxyPath cfg) = Inr (readable c')"
    and "open_of w3 (OMCLIProxyPath cfg) = Inr (readable (data s))"
  shows "sha256Checksum om = sha256 (data s)
         \<and> fst (SuspiciousOMCLIProxyBinary om w2) =
             (if sha256 c' = sha256 (data s) then None
              else Some (ChecksumError (sha256 c') (sha256 (data s))))
         \<and> fst (SuspiciousOMCLIProxyBinary om w3) = None"
proof -
  note c = NewOMReporter_Inr [OF assms(1)]
  from c(4) assms(2) have b: "sha256Checksum om = sha256 (data s)" by auto
  show ?thesis
    using assms(3,4) b c(2)
    by (simp add: fst_Suspicious fst_fileSha256 readable_def)
qed

lemma long_differ: "long_bar \<noteq> long_foo" "take 64 long_bar = take 64 long_foo"
  by (simp_all add: long_bar_def long_foo_def foo_def bar_def)

lemma long_digests_differ: "long_bar_digest \<noteq> long_foo_digest"
  by (simp add: long_bar_digest_def long_foo_digest_def)

text \<open>
  The amended claim at the contents of the package's test (\<open>foo\<close>, \<open>bar\<close>,
  \<open>foo\<close> again), and at two contents of two blocks that agree on their first 64
  bytes: both alterations are detected, both restorations pass.
\<close>

theorem tamper_check_follows_content_witness:
  "NewOMReporter (proxy_cfg True) foo_world = (Inr foo_client, foo_after)
   \<and> open_of foo_world (OMCLIProxyPath (proxy_cfg True)) = Inr (readable foo)
   \<and> open_of bar_world (OMCLIProxyPath (proxy_cfg True)) = Inr (readable bar)
   \<and> sha256 bar \<noteq> sha256 foo
   \<and> fst (SuspiciousOMCLIProxyBinary foo_client bar_world)
       = Some (ChecksumError bar_digest foo_digest)
   \<and> fst (SuspiciousOMCLIProxyBinary foo_client foo_world) = None
   \<and> fst (NewOMReporter (proxy_cfg True) (content_world long_foo))
       = Inr (content_client long_foo)
   \<and> long_bar \<noteq> long_foo \<and> take 64 long_bar = take 64 long_foo
   \<and> sha256 long_bar \<noteq> sha256 long_foo
   \<and> fst (SuspiciousOMCLIProxyBinary (content_client long_foo) (content_world long_bar))
       = Some (ChecksumError long_bar_digest long_foo_digest)
   \<and> fst (SuspiciousOMCLIProxyBinary (content_client long_foo) (content_world long_foo))
       = None"
proof -
  have p: "OMCLIProxyPath (proxy_cfg True) = proxy_path"
    by (simp add: proxy_cfg_def)
  have 1: "NewOMReporter (proxy_cfg True) foo_world = (Inr foo_client, foo_after)"
    using NewOMReporter_foo_world [of True] by (simp add: foo_client_def)
  have 2: "open_of foo_world (OMCLIProxyPath (proxy_cfg True)) = Inr (readable foo)"
    by (simp add: p foo_world_def file_at_def)
  have 3: "open_of bar_world (OMCLIProxyPath (proxy_cfg True)) = Inr (readable bar)"
    by (simp add: p bar_world_def file_at_def)
  have 4: "open_of foo_world (OMCLIProxyPath (proxy_cfg True))
             = Inr (readable (data (readable foo)))"
    by (simp add: 2 readable_def)
  have 5: "data (readable c) = c" for c :: "byte list"
    by (simp add: readable_def)
  have o: "open_of (content_world c) (OMCLIProxyPath (proxy_cfg True)) = Inr (readable c)"
    for c
    by (simp add: p content_world_def file_at_def)
  have 6: "open_of (content_world long_foo) (OMCLIProxyPath (proxy_cfg True))
             = Inr (readable (data (readable long_foo)))"
    by (simp add: o 5)
  have short: "sha256 bar \<noteq> sha256 foo
     \<and> fst (SuspiciousOMCLIProxyBinary foo_client bar_world)
         = Some (ChecksumError bar_digest foo_digest)
     \<and> fst (SuspiciousOMCLIProxyBinary foo_client foo_world) = None"
    using tamper_check_follows_content [OF 1 2 3 4] bar_digest_neq_foo_digest
    by (simp add: 5 sha256_foo sha256_bar)
  have long: "sha256 long_bar \<noteq> sha256 long_foo
     \<and> fst (SuspiciousOMCLIProxyBinary (content_client long_foo) (content_world long_bar))
         = Some (ChecksumError long_bar_digest long_foo_digest)
     \<and> fst (SuspiciousOMCLIProxyBinary (content_client long_foo) (content_world long_foo))
         = None"
    using tamper_check_follows_content
        [OF NewOMReporter_content_world [of long_foo] o [of long_foo] o [of long_bar] 6]
      long_digests_differ
    by (simp add: 5 sha256_long_foo sha256_long_bar)
  show ?thesis
    using 1 2 3 short long long_differ
    by (simp add: NewOMReporter_content_world)
qed

section \<open>Report without the tamper check\<close>

text \<open>
  C9. For a client constructed with enhanced security mode off, \<open>Report\<close> in any
  world and for any arguments runs the command at the stored path with \<open>omreport\<close>,
  the arguments, \<open>-fmt\<close> and \<open>xml\<close>, and returns what it returns; the only system
  call it adds to the log is that run: the file is neither opened nor read, no
  checksum is computed.
\<close>

theorem Report_skips_check_when_not_enhanced:
  assumes "NewOMReporter cfg w0 = (Inr om, w1)" and "\<not> EnhancedSecurityMode cfg"
  shows "Report om args w =
           (exec_of w (OMCLIProxyPath cfg)
              (DefaultOMReportCommandName # args @ [''-fmt'', ''xml'']),
            om,
            w\<lparr>trace := trace w @
                 [EvExec (OMCLIProxyPath cfg)
                    (DefaultOMReportCommandName # args @ [''-fmt'', ''xml''])]\<rparr>)"
proof -
  note c = NewOMReporter_Inr [OF assms(1)]
  have "omCLIProxyPath om \<noteq> []"
    using c(1,2) by (simp add: Base_proxy_nonempty)
  then show ?thesis
    using c(2,3) assms(2)
    by (simp add: Report_def default_path_id run_omreport_def exec_CombinedOutput_def emit_def)
qed

theorem Report_skips_check_when_not_enhanced_witness:
  "NewOMReporter (proxy_cfg False) foo_world
     = (Inr (foo_client\<lparr>enhancedSecurityMode := False\<rparr>), foo_after)
   \<and> \<not> EnhancedSecurityMode (proxy_cfg False)
   \<and> Report (foo_client\<lparr>enhancedSecurityMode := False\<rparr>) [''chassis''] chassis_world
       = (([0x3c, 0x4f, 0x4d, 0x41, 0x2f, 0x3e], None),
          foo_client\<lparr>enhancedSecurityMode := False\<rparr>,
          chassis_world\<lparr>trace := trace foo_after @
             [EvExec proxy_path [''omreport'', ''chassis'', ''-fmt'', ''xml'']]\<rparr>)"
proof -
  have 1: "NewOMReporter (proxy_cfg False) foo_world
     = (Inr (foo_client\<lparr>enhancedSecurityMode := False\<rparr>), foo_after)"
    by (rule NewOMReporter_foo_world)
  have 2: "\<not> EnhancedSecurityMode (proxy_cfg False)"
    by (simp add: proxy_cfg_def)
  show ?thesis
    using 1 2 Report_skips_check_when_not_enhanced [OF 1 2, of "[''chassis'']" chassis_world]
    by (simp add: proxy_cfg_def chassis_world_def DefaultOMReportCommandName_def)
qed

section \<open>Unknown codes\<close>

lemma go_string_ascii: "0 \<le> c \<Longrightarrow> c < 128 \<Longrightarrow> go_string c = [char_of c]"
  by (simp add: go_string_def utf8_encode_def)

lemma dec_nat_digit: "n < 10 \<Longrightarrow> dec_nat n = [char_of (48 + n)]"
  by (subst dec_nat.simps) simp

lemma dec_nat_long: "10 \<le> n \<Longrightarrow> 2 \<le> length (dec_nat n)"
proof -
  assume "10 \<le> n"
  have "1 \<le> length (dec_nat k)" for k
    by (subst dec_nat.simps) simp
  from this [of "n div 10"] \<open>10 \<le> n\<close> show ?thesis
    by (subst dec_nat.simps) simp
qed

lemma go_string_not_decimal:
  assumes "0 \<le> c" and "c < 128"
  shows "go_string c \<noteq> fmt_d c"
proof (cases "c < 10")
  case True
  have n: "nat c < 10"
    using True assms(1) by simp
  have "char_of c = char_of (int (nat c))"
    using assms(1) by simp
  also have "\<dots> = char_of (nat c)"
    by (rule char_of_nat)
  finally have c: "char_of c = char_of (nat c)" .
  have "char_of (nat c) \<noteq> char_of (48 + nat c)"
  proof
    assume "char_of (nat c) = char_of (48 + nat c)"
    then have "(of_char (char_of (nat c)) :: nat) = of_char (char_of (48 + nat c))"
      by simp
    then have "nat c mod 256 = (48 + nat c) mod 256"
      by (simp only: of_char_of)
    then show False using n by simp
  qed
  with c have "char_of c \<noteq> char_of (48 + nat c)"
    by simp
  then show ?thesis
    using True assms by (simp add: go_string_ascii fmt_d_def dec_nat_digit)
next
  case False
  then have "2 \<le> length (fmt_d c)"
    using dec_nat_long [of "nat c"] by (simp add: fmt_d_def)
  moreover have "length (go_string c) = 1"
    using assms by (simp add: go_string_ascii)
  ultimately show ?thesis
  proof -
    assume l: "2 \<le> length (fmt_d c)" "length (go_string c) = 1"
    show ?thesis
    proof
      assume "go_string c = fmt_d c"
      then have "length (go_string c) = length (fmt_d c)" by simp
      with l show False by simp
    qed
  qed
qed


lemma Status_String_unknown:
  "c \<notin> set known_status \<Longrightarrow> Status_String c = ''Unknown status code '' @ go_string c"
  by (simp add: known_status_def Status_String_def)

lemma State_String_unknown:
  "c \<notin> set known_state \<Longrightarrow> State_String c = ''Unknown state code '' @ go_string c"
  by (simp add: known_state_def State_String_def)

lemma BusProtocol_String_unknown:
  "c \<notin> set known_bus_protocol \<Longrightarrow>
     BusProtocol_String c = ''Unknown bus protocol code '' @ go_string c"
  by (simp add: known_bus_protocol_def BusProtocol_String_def)

lemma Layout_String_unknown:
  "c \<notin> set known_layout \<Longrightarrow> Layout_String c = ''Unknown layout code '' @ go_string c"
  by (simp add: known_layout_def Layout_String_def)

text \<open>
  C10. For a code outside the known values, each \<open>String\<close> method appends Go's
  \<open>string(code)\<close> to its text: the UTF-8 encoding of the code point. For \<open>0 \<le> code <
  128\<close> that is the one character with that code, never the decimal digits of the
  code: status 65 gives \<open>Unknown status code A\<close>.
\<close>

theorem unknown_code_rendered_as_character:
  "(c \<notin> set known_status \<longrightarrow>
      Status_String c = ''Unknown status code '' @ go_string c)
   \<and> (c \<notin> set known_state \<longrightarrow>
      State_String c = ''Unknown state code '' @ go_string c)
   \<and> (c \<notin> set known_bus_protocol \<longrightarrow>
      BusProtocol_String c = ''Unknown bus protocol code '' @ go_string c)
   \<and> (c \<notin> set known_layout \<longrightarrow>
      Layout_String c = ''Unknown layout code '' @ go_string c)
   \<and> (0 \<le> c \<and> c < 128 \<longrightarrow> go_string c = [char_of c] \<and> go_string c \<noteq> fmt_d c)"
  using Status_String_unknown [of c] State_String_unknown [of c]
    BusProtocol_String_unknown [of c] Layout_String_unknown [of c]
    go_string_ascii [of c] go_string_not_decimal [of c]
  by blast

theorem unknown_code_rendered_as_character_witness:
  "65 \<notin> set known_status \<and> 65 \<notin> set known_state \<and> 65 \<notin> set known_bus_protocol
   \<and> 65 \<notin> set known_layout
   \<and> Status_String 65 = ''Unknown status code A''
   \<and> State_String 65 = ''Unknown state code A''
   \<and> BusProtocol_String 65 = ''Unknown bus protocol code A''
   \<and> Layout_String 65 = ''Unknown layout code A''
   \<and> fmt_d 65 = ''65''
   \<and> Status_String 65 \<noteq> ''Unknown status code 65''"
proof -
  have k: "65 \<notin> set known_status" "65 \<notin> set known_state" "65 \<notin> set known_bus_protocol"
    "65 \<notin> set known_layout"
    by (simp_all add: known_status_def known_state_def known_bus_protocol_def known_layout_def
        StatusOK_def StatusNonCritical_def StatusCritical_def
        StateReady_def StateFailed_def StateOnline_def StateOffline_def StateDegraded_def
        StateNonRAID_def StateReplacing_def StateRebuilding_def
        StateBackgroundInitialization_def StateForeign_def StateClear_def
        StateDegradedRedundancy_def LayoutRAID0_def LayoutRAID1_def LayoutRAID5_def
        LayoutRAID6_def LayoutRAID60_def BusProtocolSCSI_def BusProtocolIDE_def
        BusProtocolSATA_def BusProtocolSAS_def BusProtocolPCIe_def)
  have d: "fmt_d 65 = ''65''"
    by code_simp
  have a: "[char_of (65 :: int)] = ''A''"
    by code_simp
  show ?thesis
    using k d unknown_code_rendered_as_character [of 65]
    by (simp add: a)
qed

end
